theory Spec2Isabelle
  imports Main "HOL-Library.List_Lexorder" "HOL-Library.Char_ord"
begin

section \<open>JavaScript values and awaited calls\<close>

text \<open>
  The values that travel through the \<open>error\<close> fields of the session context.
  A response error of the relational store is a plain object with a \<open>code\<close>; an
  error of the identity provider is an instance of a subclass of \<open>Error\<close>.
\<close>

record pg_error =
  code :: string
  message :: string

datatype js_value =
    JsNull
  | JsUndefined
  | JsString string
  | JsError string
  | JsAuthError string
  | JsPostgrestError pg_error

text \<open>\<open>v instanceof Error\<close>.\<close>

fun instanceofError :: "js_value \<Rightarrow> bool" where
  "instanceofError (JsError m) = True"
| "instanceofError (JsAuthError m) = True"
| "instanceofError v = False"

text \<open>The truthiness test of \<open>if (v)\<close>.\<close>

fun truthy :: "js_value \<Rightarrow> bool" where
  "truthy JsNull = False"
| "truthy JsUndefined = False"
| "truthy (JsString s) = (s \<noteq> [])"
| "truthy v = True"

text \<open>An awaited call either throws a value or resolves to its result.\<close>

datatype 'a outcome = Throws js_value | Resolves 'a

text \<open>\<open>x || d\<close> for an optional string \<open>x\<close> and a string \<open>d\<close>, and
  \<open>x || y\<close> for two optional strings: the empty string and \<open>undefined\<close> are falsy.\<close>

fun js_or_str :: "string option \<Rightarrow> string \<Rightarrow> string" where
  "js_or_str None d = d"
| "js_or_str (Some s) d = (if s = [] then d else s)"

fun js_or :: "string option \<Rightarrow> string option \<Rightarrow> string option" where
  "js_or None y = y"
| "js_or (Some s) y = (if s = [] then y else Some s)"

section \<open>Identity provider objects\<close>

record user =
  id' :: string
  email :: "string option"
  user_metadata :: "(string \<rightharpoonup> string) option"

record session =
  access_token :: string
  user :: user

section \<open>AuthContext: the session context\<close>

record auth_state =
  user :: "user option"
  session :: "session option"
  loading :: bool

text \<open>The initial state of the three \<open>useState\<close> hooks of \<open>AuthProvider\<close>.\<close>

definition auth_initial :: auth_state where
  "auth_initial = \<lparr>user = None, session = None, loading = True\<rparr>"

text \<open>The callback given to \<open>onAuthStateChange\<close>; the event name is not read.\<close>

definition onAuthStateChange :: "string \<Rightarrow> session option \<Rightarrow> auth_state \<Rightarrow> auth_state" where
  "onAuthStateChange event sess st =
     st\<lparr>session := sess, user := map_option session.user sess, loading := False\<rparr>"

text \<open>The continuation of \<open>getSession()\<close>, run once after mount.\<close>

definition getSession_then :: "session option \<Rightarrow> auth_state \<Rightarrow> auth_state" where
  "getSession_then sess st =
     st\<lparr>session := sess, user := map_option session.user sess, loading := False\<rparr>"

record signup_request =
  su_email :: string
  su_password :: string
  su_emailRedirectTo :: string
  su_data_name :: string

record 'd auth_response =
  r_data :: 'd
  r_error :: "string option"

record err_result =
  error :: js_value

record 'd signup_result = err_result +
  data :: "'d option"

text \<open>\<open>signUp\<close>: the whole body is inside \<open>try\<close>; \<open>origin\<close> is
  \<open>window.location.origin\<close>. A field that the returned object literal does not have is
  \<open>None\<close>.\<close>

definition signUp ::
  "(signup_request \<Rightarrow> 'd auth_response outcome) \<Rightarrow> string \<Rightarrow> string \<Rightarrow> string \<Rightarrow> string option
     \<Rightarrow> 'd signup_result" where
  "signUp auth_signUp origin email' password name' =
     (case auth_signUp \<lparr>su_email = email', su_password = password,
                        su_emailRedirectTo = origin @ ''/auth/callback'',
                        su_data_name = js_or_str name' ''''\<rparr> of
        Throws e \<Rightarrow>
          \<lparr>error = (if instanceofError e then e else JsError ''Unknown error''), data = None\<rparr>
      | Resolves r \<Rightarrow>
          (case r_error r of
             Some e \<Rightarrow> \<lparr>error = JsAuthError e, data = None\<rparr>
           | None \<Rightarrow> \<lparr>error = JsNull, data = Some (r_data r)\<rparr>))"

text \<open>\<open>signIn\<close>: also wholly inside \<open>try\<close>, with the same normalising handler.\<close>

record signin_request =
  si_email :: string
  si_password :: string

definition signIn ::
  "(signin_request \<Rightarrow> 'd auth_response outcome) \<Rightarrow> string \<Rightarrow> string \<Rightarrow> err_result" where
  "signIn auth_signInWithPassword email' password =
     (case auth_signInWithPassword \<lparr>si_email = email', si_password = password\<rparr> of
        Throws e \<Rightarrow> \<lparr>error = (if instanceofError e then e else JsError ''Unknown error'')\<rparr>
      | Resolves r \<Rightarrow>
          (case r_error r of
             Some e \<Rightarrow> \<lparr>error = JsAuthError e\<rparr>
           | None \<Rightarrow> \<lparr>error = JsNull\<rparr>))"

text \<open>\<open>signInWithMagicLink\<close>: the handler returns the caught value as it is.\<close>

record otp_request =
  otp_email :: string
  otp_emailRedirectTo :: string

definition signInWithMagicLink ::
  "(otp_request \<Rightarrow> 'd auth_response outcome) \<Rightarrow> string \<Rightarrow> string \<Rightarrow> err_result" where
  "signInWithMagicLink auth_signInWithOtp origin email' =
     (case auth_signInWithOtp \<lparr>otp_email = email',
                               otp_emailRedirectTo = origin @ ''/auth/callback''\<rparr> of
        Throws e \<Rightarrow> \<lparr>error = e\<rparr>
      | Resolves r \<Rightarrow>
          (case r_error r of
             Some e \<Rightarrow> \<lparr>error = JsAuthError e\<rparr>
           | None \<Rightarrow> \<lparr>error = JsNull\<rparr>))"

text \<open>\<open>signOut\<close> has no \<open>try\<close>: a value thrown by the provider call leaves the function.
  It logs a returned error and calls none of \<open>setUser\<close>, \<open>setSession\<close>, \<open>setLoading\<close>, so
  the local state it is given comes back as it was.\<close>

definition signOut ::
  "(unit \<Rightarrow> string option outcome) \<Rightarrow> auth_state \<Rightarrow> unit outcome \<times> auth_state" where
  "signOut auth_signOut st =
     (case auth_signOut () of
        Throws e \<Rightarrow> (Throws e, st)
      | Resolves err \<Rightarrow> (Resolves (), st))"

section \<open>The relational store as the code calls it\<close>

record resume =
  id' :: int
  user_id :: string
  original_file_name :: string
  enhanced_file_name :: "string option"
  storage_path :: string
  file_url :: string
  file_size :: int
  file_type :: string
  job_description :: "string option"
  status :: string
  created_at :: string

record profile_row =
  id' :: string
  name :: string
  avatar_url :: string
  created_at :: string
  updated_at :: string

record profile_patch =
  p_name :: string
  p_avatar_url :: string
  p_updated_at :: string

record resume_query =
  q_user_id :: string
  q_order :: string
  q_ascending :: bool

record 'd pg_response =
  resp_data :: "'d option"
  resp_error :: "pg_error option"

text \<open>The requests a function sends to the store, in the order sent.\<close>

datatype request =
    ProfilesUpdate profile_patch string
  | ProfilesInsert profile_row
  | ProfilesSelectSingle string
  | ProfilesInsertSelectSingle profile_row
  | ResumesSelect resume_query

text \<open>
  The client handle over a world \<open>'w\<close> that the calls read and change:
  \<open>date_now\<close> is \<open>new Date().toISOString()\<close>,
  \<open>profiles_update p uid\<close> is \<open>from('profiles').update(p).eq('id', uid)\<close>,
  \<open>profiles_insert r\<close> is \<open>from('profiles').insert(r)\<close>,
  \<open>profiles_select_single uid\<close> is \<open>from('profiles').select('*').eq('id', uid).single()\<close>,
  \<open>profiles_insert_select_single r\<close> is \<open>from('profiles').insert(r).select().single()\<close>,
  \<open>resumes_select q\<close> is
  \<open>from('resumes').select('*').eq('user_id', q_user_id q).order(q_order q, {ascending: q_ascending q})\<close>.
\<close>

record 'w supabase =
  date_now :: "'w \<Rightarrow> string \<times> 'w"
  profiles_update :: "profile_patch \<Rightarrow> string \<Rightarrow> 'w \<Rightarrow> pg_error option outcome \<times> 'w"
  profiles_insert :: "profile_row \<Rightarrow> 'w \<Rightarrow> pg_error option outcome \<times> 'w"
  profiles_select_single :: "string \<Rightarrow> 'w \<Rightarrow> profile_row pg_response outcome \<times> 'w"
  profiles_insert_select_single :: "profile_row \<Rightarrow> 'w \<Rightarrow> profile_row pg_response outcome \<times> 'w"
  resumes_select :: "resume_query \<Rightarrow> 'w \<Rightarrow> resume list pg_response outcome \<times> 'w"

fun pg_to_js :: "pg_error option \<Rightarrow> js_value" where
  "pg_to_js None = JsNull"
| "pg_to_js (Some e) = JsPostgrestError e"

section \<open>AuthContext: updateProfile\<close>

text \<open>
  \<open>updateProfile\<close> reads \<open>user\<close> from the provider's state. It returns the object it
  resolves to, the requests it sent and the world after them. The whole body is inside
  \<open>try\<close>, and the handler returns the caught value as it is.
\<close>

definition updateProfile ::
  "'w supabase \<Rightarrow> user option \<Rightarrow> string \<Rightarrow> string option \<Rightarrow> 'w
     \<Rightarrow> err_result \<times> request list \<times> 'w" where
  "updateProfile sb usr name' avatarUrl w =
     (case usr of
        None \<Rightarrow> (\<lparr>error = JsString ''No user found''\<rparr>, [], w)
      | Some u \<Rightarrow>
          (let (t0, w1) = date_now sb w;
               patch = \<lparr>p_name = name', p_avatar_url = js_or_str avatarUrl '''',
                        p_updated_at = t0\<rparr>;
               (r1, w2) = profiles_update sb patch (user.id' u) w1;
               req1 = ProfilesUpdate patch (user.id' u)
           in case r1 of
                Throws e \<Rightarrow> (\<lparr>error = e\<rparr>, [req1], w2)
              | Resolves None \<Rightarrow> (\<lparr>error = JsNull\<rparr>, [req1], w2)
              | Resolves (Some updateError) \<Rightarrow>
                  if code updateError = ''PGRST116'' then
                    (let (t1, w3) = date_now sb w2;
                         (t2, w4) = date_now sb w3;
                         row = \<lparr>id' = user.id' u, name = name',
                                avatar_url = js_or_str avatarUrl '''',
                                created_at = t1, updated_at = t2\<rparr>;
                         (r2, w5) = profiles_insert sb row w4
                     in case r2 of
                          Throws e \<Rightarrow> (\<lparr>error = e\<rparr>, [req1, ProfilesInsert row], w5)
                        | Resolves insertError \<Rightarrow>
                            (\<lparr>error = pg_to_js insertError\<rparr>, [req1, ProfilesInsert row], w5))
                  else (\<lparr>error = JsPostgrestError updateError\<rparr>, [req1], w2)))"

section \<open>Dashboard\<close>

record dashboard =
  profile :: "profile_row option"
  resumes :: "resume list"
  loading :: bool
  editingProfile :: bool
  newName :: string
  showUploadModal :: bool

definition dashboard_initial :: dashboard where
  "dashboard_initial =
     \<lparr>profile = None, resumes = [], loading = True, editingProfile = False,
      newName = [], showUploadModal = False\<rparr>"

text \<open>\<open>user.user_metadata?.k\<close> and \<open>user.email?.split('@')[0]\<close>.\<close>

definition metadata_get :: "user \<Rightarrow> string \<Rightarrow> string option" where
  "metadata_get u k = (case user_metadata u of None \<Rightarrow> None | Some m \<Rightarrow> m k)"

definition email_local_part :: "user \<Rightarrow> string option" where
  "email_local_part u = map_option (takeWhile (\<lambda>c. c \<noteq> CHR ''@'')) (email u)"

text \<open>The name of the default profile that \<open>fetchUserData\<close> builds.\<close>

definition default_name :: "user \<Rightarrow> string" where
  "default_name u = js_or_str (js_or (metadata_get u ''name'') (email_local_part u)) ''User''"

text \<open>
  The profile part of \<open>fetchUserData\<close> (the statements before the resumes are fetched).
  It returns \<open>Throws\<close> when a statement throws, which takes control to the handler of
  \<open>fetchUserData\<close>. When the store answers without an error and without a row,
  \<open>setProfile(profileData)\<close> runs and reading \<open>profileData.name\<close> throws.
\<close>

definition fetchUserData_profile ::
  "'w supabase \<Rightarrow> user \<Rightarrow> dashboard \<Rightarrow> 'w \<Rightarrow> unit outcome \<times> dashboard \<times> request list \<times> 'w" where
  "fetchUserData_profile sb u st w =
     (let (r1, w1) = profiles_select_single sb (user.id' u) w;
          req1 = ProfilesSelectSingle (user.id' u)
      in case r1 of
           Throws e \<Rightarrow> (Throws e, st, [req1], w1)
         | Resolves resp \<Rightarrow>
             (case resp_error resp of
                Some profileError \<Rightarrow>
                  if code profileError = ''PGRST116'' then
                    (let (t1, w2) = date_now sb w1;
                         (t2, w3) = date_now sb w2;
                         row = \<lparr>id' = user.id' u, name = default_name u,
                                avatar_url = js_or_str (metadata_get u ''avatar_url'') '''',
                                created_at = t1, updated_at = t2\<rparr>;
                         (r2, w4) = profiles_insert_select_single sb row w3;
                         reqs = [req1, ProfilesInsertSelectSingle row]
                     in case r2 of
                          Throws e \<Rightarrow> (Throws e, st, reqs, w4)
                        | Resolves resp2 \<Rightarrow>
                            (case (resp_error resp2, resp_data resp2) of
                               (None, Some newProfile) \<Rightarrow>
                                 (Resolves (),
                                  st\<lparr>profile := Some newProfile,
                                     newName := js_or_str (Some (name newProfile)) ''''\<rparr>,
                                  reqs, w4)
                             | _ \<Rightarrow> (Resolves (), st, reqs, w4)))
                  else (Resolves (), st, [req1], w1)
              | None \<Rightarrow>
                  (case resp_data resp of
                     Some profileData \<Rightarrow>
                       (Resolves (),
                        st\<lparr>profile := Some profileData,
                           newName := js_or_str (Some (name profileData)) ''''\<rparr>,
                        [req1], w1)
                   | None \<Rightarrow>
                       (Throws (JsError ''Cannot read properties of null''),
                        st\<lparr>profile := None\<rparr>, [req1], w1))))"

text \<open>The query for the resumes of a user, as \<open>fetchUserData\<close> writes it.\<close>

definition resumes_query :: "user \<Rightarrow> resume_query" where
  "resumes_query u =
     \<lparr>q_user_id = user.id' u, q_order = ''created_at'', q_ascending = False\<rparr>"

text \<open>
  \<open>fetchUserData\<close>: nothing happens without a user (the return is before \<open>try\<close>);
  otherwise \<open>finally\<close> always sets \<open>loading\<close> to false.
\<close>

definition fetchUserData ::
  "'w supabase \<Rightarrow> user option \<Rightarrow> dashboard \<Rightarrow> 'w \<Rightarrow> dashboard \<times> request list \<times> 'w" where
  "fetchUserData sb usr st w =
     (case usr of
        None \<Rightarrow> (st, [], w)
      | Some u \<Rightarrow>
          (let (r1, st1, reqs1, w1) = fetchUserData_profile sb u st w
           in case r1 of
                Throws e \<Rightarrow> (st1\<lparr>loading := False\<rparr>, reqs1, w1)
              | Resolves x \<Rightarrow>
                  (let (r2, w2) = resumes_select sb (resumes_query u) w1;
                       reqs2 = reqs1 @ [ResumesSelect (resumes_query u)]
                   in case r2 of
                        Throws e \<Rightarrow> (st1\<lparr>loading := False\<rparr>, reqs2, w2)
                      | Resolves resp \<Rightarrow>
                          (case resp_error resp of
                             Some resumeError \<Rightarrow> (st1\<lparr>loading := False\<rparr>, reqs2, w2)
                           | None \<Rightarrow>
                               (st1\<lparr>resumes := (case resp_data resp of
                                                  None \<Rightarrow> [] | Some resumeData \<Rightarrow> resumeData),
                                    loading := False\<rparr>, reqs2, w2)))))"

text \<open>
  \<open>handleUpdateProfile\<close> calls the \<open>updateProfile\<close> it got from the context with
  \<open>newName\<close> alone; its own \<open>try\<close> catches whatever that call throws.
\<close>

definition handleUpdateProfile ::
  "(string \<Rightarrow> 'w \<Rightarrow> err_result outcome \<times> 'w) \<Rightarrow> dashboard \<Rightarrow> 'w \<Rightarrow> dashboard \<times> 'w" where
  "handleUpdateProfile updateProfile_fn st w =
     (let (r, w1) = updateProfile_fn (newName st) w
      in case r of
           Throws e \<Rightarrow> (st, w1)
         | Resolves res \<Rightarrow>
             if truthy (error res) then (st, w1)
             else (st\<lparr>profile := map_option (\<lambda>prev. prev\<lparr>name := newName st\<rparr>) (profile st),
                      editingProfile := False\<rparr>, w1))"

text \<open>The context's \<open>updateProfile\<close> as \<open>handleUpdateProfile\<close> calls it.\<close>

definition context_updateProfile ::
  "'w supabase \<Rightarrow> user option \<Rightarrow> string \<Rightarrow> 'w \<Rightarrow> err_result outcome \<times> 'w" where
  "context_updateProfile sb usr n w =
     (let (res, reqs, w1) = updateProfile sb usr n None w in (Resolves res, w1))"

definition handleUploadSuccess :: "resume \<Rightarrow> dashboard \<Rightarrow> dashboard" where
  "handleUploadSuccess newResume st =
     st\<lparr>resumes := newResume # resumes st, showUploadModal := False\<rparr>"

text \<open>What the page shows: \<open>profile?.name || 'User'\<close> in the greeting and
  \<open>user?.email\<close> under it.\<close>

definition displayed_name :: "dashboard \<Rightarrow> string" where
  "displayed_name st = js_or_str (map_option name (profile st)) ''User''"

definition displayed_email :: "user option \<Rightarrow> string option" where
  "displayed_email usr = (case usr of None \<Rightarrow> None | Some u \<Rightarrow> email u)"

section \<open>A reference store\<close>

text \<open>
  Modelled from the spec: the relational store is an external service and none of its
  code is in the repository. This is the store that the spec and the comments of the code
  describe: one profile row per user id (the primary key); a single-row fetch that finds
  no row answers with the code \<open>PGRST116\<close>; an insert of an id that is already there is
  refused; the resumes of a user come back in the order the query asks for. What the
  store answers to an update that matches no row is the parameter \<open>miss\<close> (the spec's
  "no rows" condition is \<open>Some no_rows\<close>). The clock gives the reading \<open>clock w k\<close> at
  its \<open>k\<close>-th use; \<open>instant\<close> reads a timestamp as a point in time.
\<close>

record table_world =
  clock :: "nat \<Rightarrow> string"
  tick :: nat
  profile_rows :: "string \<rightharpoonup> profile_row"
  resume_rows :: "resume list"

definition no_rows :: pg_error where
  "no_rows = \<lparr>code = ''PGRST116'', message = ''JSON object requested, multiple (or no) rows returned''\<rparr>"

definition duplicate_key :: pg_error where
  "duplicate_key = \<lparr>code = ''23505'', message = ''duplicate key value violates unique constraint''\<rparr>"

definition table_now :: "table_world \<Rightarrow> string \<times> table_world" where
  "table_now w = (clock w (tick w), w\<lparr>tick := Suc (tick w)\<rparr>)"

definition table_update ::
  "pg_error option \<Rightarrow> profile_patch \<Rightarrow> string \<Rightarrow> table_world \<Rightarrow> pg_error option outcome \<times> table_world" where
  "table_update miss p uid w =
     (case profile_rows w uid of
        None \<Rightarrow> (Resolves miss, w)
      | Some r \<Rightarrow>
          (Resolves None,
           w\<lparr>profile_rows := (profile_rows w)(uid \<mapsto>
                r\<lparr>name := p_name p, avatar_url := p_avatar_url p, updated_at := p_updated_at p\<rparr>)\<rparr>))"

definition table_insert :: "profile_row \<Rightarrow> table_world \<Rightarrow> pg_error option outcome \<times> table_world" where
  "table_insert r w =
     (case profile_rows w (id' r) of
        None \<Rightarrow> (Resolves None, w\<lparr>profile_rows := (profile_rows w)(id' r \<mapsto> r)\<rparr>)
      | Some old \<Rightarrow> (Resolves (Some duplicate_key), w))"

definition table_select_single ::
  "string \<Rightarrow> table_world \<Rightarrow> profile_row pg_response outcome \<times> table_world" where
  "table_select_single uid w =
     (case profile_rows w uid of
        None \<Rightarrow> (Resolves \<lparr>resp_data = None, resp_error = Some no_rows\<rparr>, w)
      | Some r \<Rightarrow> (Resolves \<lparr>resp_data = Some r, resp_error = None\<rparr>, w))"

definition table_insert_select_single ::
  "profile_row \<Rightarrow> table_world \<Rightarrow> profile_row pg_response outcome \<times> table_world" where
  "table_insert_select_single r w =
     (case profile_rows w (id' r) of
        None \<Rightarrow> (Resolves \<lparr>resp_data = Some r, resp_error = None\<rparr>,
                 w\<lparr>profile_rows := (profile_rows w)(id' r \<mapsto> r)\<rparr>)
      | Some old \<Rightarrow> (Resolves \<lparr>resp_data = None, resp_error = Some duplicate_key\<rparr>, w))"

definition order_rows :: "(string \<Rightarrow> 't::linorder) \<Rightarrow> resume_query \<Rightarrow> resume list \<Rightarrow> resume list" where
  "order_rows instant q rs =
     (if q_order q = ''created_at'' then
        (if q_ascending q then sort_key (\<lambda>r. instant (resume.created_at r)) rs
         else rev (sort_key (\<lambda>r. instant (resume.created_at r)) rs))
      else rs)"

definition table_resumes_select ::
  "(string \<Rightarrow> 't::linorder) \<Rightarrow> resume_query \<Rightarrow> table_world
     \<Rightarrow> resume list pg_response outcome \<times> table_world" where
  "table_resumes_select instant q w =
     (Resolves \<lparr>resp_data = Some (order_rows instant q
                                  (filter (\<lambda>r. user_id r = q_user_id q) (resume_rows w))),
                resp_error = None\<rparr>, w)"

definition table_store :: "(string \<Rightarrow> 't::linorder) \<Rightarrow> pg_error option \<Rightarrow> table_world supabase" where
  "table_store instant miss =
     \<lparr>date_now = table_now,
      profiles_update = table_update miss,
      profiles_insert = table_insert,
      profiles_select_single = table_select_single,
      profiles_insert_select_single = table_insert_select_single,
      resumes_select = table_resumes_select instant\<rparr>"

section \<open>Vocabulary of the properties\<close>

text \<open>The requests sent by a call and the world it leaves.\<close>

definition sent :: "'a \<times> request list \<times> 'w \<Rightarrow> request list" where
  "sent r = fst (snd r)"

definition world_after :: "'a \<times> request list \<times> 'w \<Rightarrow> 'w" where
  "world_after r = snd (snd r)"

text \<open>The provider's "no rows" condition on the answer to an update.\<close>

fun no_rows_condition :: "pg_error option outcome \<Rightarrow> bool" where
  "no_rows_condition (Resolves (Some e)) = (code e = ''PGRST116'')"
| "no_rows_condition r = False"

fun is_insert :: "request \<Rightarrow> bool" where
  "is_insert (ProfilesInsert r) = True"
| "is_insert (ProfilesInsertSelectSingle r) = True"
| "is_insert q = False"

text \<open>A list of resumes is in descending order of creation time.\<close>

definition sorted_desc :: "(string \<Rightarrow> 't::linorder) \<Rightarrow> resume list \<Rightarrow> bool" where
  "sorted_desc instant rs =
     sorted_wrt (\<lambda>a b. instant (resume.created_at a) \<ge> instant (resume.created_at b)) rs"

text \<open>The world after \<open>k\<close> calls of \<open>updateProfile\<close> with the same arguments, one after the other.\<close>

fun updateProfile_repeated ::
  "nat \<Rightarrow> 'w supabase \<Rightarrow> user option \<Rightarrow> string \<Rightarrow> string option \<Rightarrow> 'w \<Rightarrow> 'w" where
  "updateProfile_repeated 0 sb usr n av w = w"
| "updateProfile_repeated (Suc k) sb usr n av w =
     updateProfile_repeated k sb usr n av (world_after (updateProfile sb usr n av w))"

text \<open>The avatar that a request to the profiles table carries.\<close>

fun request_avatar_url :: "request \<Rightarrow> string option" where
  "request_avatar_url (ProfilesUpdate p uid) = Some (p_avatar_url p)"
| "request_avatar_url (ProfilesInsert r) = Some (avatar_url r)"
| "request_avatar_url (ProfilesInsertSelectSingle r) = Some (avatar_url r)"
| "request_avatar_url q = None"

text \<open>A run of successful uploads, and the assumption on it: every uploaded resume is
  strictly later than all the resumes in the list before it.\<close>

fun uploads :: "resume list \<Rightarrow> dashboard \<Rightarrow> dashboard" where
  "uploads [] st = st"
| "uploads (r # rs) st = uploads rs (handleUploadSuccess r st)"

fun chronological :: "(string \<Rightarrow> 't::linorder) \<Rightarrow> resume list \<Rightarrow> resume list \<Rightarrow> bool" where
  "chronological instant cur [] = True"
| "chronological instant cur (r # rs) =
     (list_all (\<lambda>x. instant (resume.created_at x) < instant (resume.created_at r)) cur
      \<and> chronological instant (r # cur) rs)"

section \<open>Example inputs\<close>

fun example_clock :: "nat \<Rightarrow> string" where
  "example_clock 0 = ''2024-05-01T10:00:00.000Z''"
| "example_clock (Suc 0) = ''2024-05-01T10:00:00.001Z''"
| "example_clock (Suc (Suc 0)) = ''2024-05-01T10:00:00.002Z''"
| "example_clock (Suc (Suc (Suc k))) = ''2024-05-01T10:00:00.003Z''"

definition example_user :: user where
  "example_user = \<lparr>user.id' = ''u1'', email = Some ''a@b.com'', user_metadata = Some Map.empty\<rparr>"

definition example_row :: profile_row where
  "example_row = \<lparr>id' = ''u1'', name = ''Ann'', avatar_url = ''https://cdn/ann.png'',
                  created_at = ''2024-04-01T09:00:00.000Z'', updated_at = ''2024-04-01T09:00:00.000Z''\<rparr>"

definition empty_world :: table_world where
  "empty_world = \<lparr>clock = example_clock, tick = 0, profile_rows = Map.empty, resume_rows = []\<rparr>"

definition world_with_row :: table_world where
  "world_with_row = \<lparr>clock = example_clock, tick = 0, profile_rows = [''u1'' \<mapsto> example_row], resume_rows = []\<rparr>"

definition example_resume :: "int \<Rightarrow> string \<Rightarrow> string \<Rightarrow> resume" where
  "example_resume n uid t =
     \<lparr>resume.id' = n, user_id = uid, original_file_name = ''cv.pdf'', enhanced_file_name = None,
      storage_path = ''resumes/cv.pdf'', file_url = ''https://cdn/cv.pdf'', file_size = 1024,
      file_type = ''application/pdf'', job_description = None, status = ''uploaded'',
      resume.created_at = t\<rparr>"

definition world_with_resumes :: table_world where
  "world_with_resumes =
     \<lparr>clock = example_clock, tick = 0, profile_rows = [''u1'' \<mapsto> example_row],
      resume_rows = [example_resume 1 ''u1'' ''2024-04-01T09:00:00.000Z'',
                     example_resume 2 ''u2'' ''2024-04-02T09:00:00.000Z'',
                     example_resume 3 ''u1'' ''2024-04-03T09:00:00.000Z'']\<rparr>"

definition fetched_dashboard :: dashboard where
  "fetched_dashboard =
     \<lparr>profile = Some example_row,
      resumes = [example_resume 3 ''u1'' ''2024-04-03T09:00:00.000Z'',
                 example_resume 1 ''u1'' ''2024-04-01T09:00:00.000Z''],
      loading = False, editingProfile = False, newName = ''Ann'', showUploadModal = True\<rparr>"

definition editing_dashboard :: dashboard where
  "editing_dashboard =
     \<lparr>profile = Some example_row, resumes = [], loading = False, editingProfile = True,
      newName = ''Ann B'', showUploadModal = False\<rparr>"

text \<open>A client whose calls throw \<open>v\<close>; its update throws or reports no rows.\<close>

definition flaky_store :: "js_value \<Rightarrow> bool \<Rightarrow> unit supabase" where
  "flaky_store v update_throws =
     \<lparr>date_now = (\<lambda>w. (''2024-05-01T10:00:00.000Z'', w)),
      profiles_update = (\<lambda>p uid w. (if update_throws then Throws v else Resolves (Some no_rows), w)),
      profiles_insert = (\<lambda>r w. (Throws v, w)),
      profiles_select_single = (\<lambda>uid w. (Throws v, w)),
      profiles_insert_select_single = (\<lambda>r w. (Throws v, w)),
      resumes_select = (\<lambda>q w. (Throws v, w))\<rparr>"

section \<open>Properties of the session context\<close>

text \<open>
  C4. When the provider resolves without an error, \<open>signUp\<close> returns the error
  \<open>null\<close> together with the provider's data. When the provider resolves with an error
  (a duplicate email, say) or throws, the returned error is not \<open>null\<close> and the object
  has no data field.
\<close>

theorem signUp_result:
  "(auth_signUp \<lparr>su_email = em, su_password = pw, su_emailRedirectTo = origin @ ''/auth/callback'',
                 su_data_name = js_or_str nm ''''\<rparr> = Resolves r \<and> r_error r = None \<longrightarrow>
      signUp auth_signUp origin em pw nm = \<lparr>error = JsNull, data = Some (r_data r)\<rparr>)
   \<and> (auth_signUp \<lparr>su_email = em, su_password = pw, su_emailRedirectTo = origin @ ''/auth/callback'',
                 su_data_name = js_or_str nm ''''\<rparr> = Resolves r \<and> r_error r = Some msg \<longrightarrow>
      signUp auth_signUp origin em pw nm = \<lparr>error = JsAuthError msg, data = None\<rparr>
      \<and> error (signUp auth_signUp origin em pw nm) \<noteq> JsNull
      \<and> truthy (error (signUp auth_signUp origin em pw nm)))
   \<and> (auth_signUp \<lparr>su_email = em, su_password = pw, su_emailRedirectTo = origin @ ''/auth/callback'',
                 su_data_name = js_or_str nm ''''\<rparr> = Throws v \<longrightarrow>
      data (signUp auth_signUp origin em pw nm) = None
      \<and> error (signUp auth_signUp origin em pw nm) \<noteq> JsNull
      \<and> truthy (error (signUp auth_signUp origin em pw nm)))"
  by (cases v) (auto simp: signUp_def)

theorem signUp_result_witness:
  "signUp (\<lambda>req. Resolves \<lparr>r_data = ''session-1'', r_error = None\<rparr>)
          ''https://app.example'' ''a@b.com'' ''secret'' (Some ''Ann'') =
     \<lparr>error = JsNull, data = Some ''session-1''\<rparr>
   \<and> signUp (\<lambda>req. Resolves \<lparr>r_data = ''none'', r_error = Some ''User already registered''\<rparr>)
          ''https://app.example'' ''a@b.com'' ''secret'' (Some ''Ann'') =
     \<lparr>error = JsAuthError ''User already registered'', data = None\<rparr>
   \<and> data (signUp (\<lambda>req. Throws (JsString ''offline'') :: string auth_response outcome)
          ''https://app.example'' ''a@b.com'' ''secret'' (Some ''Ann'')) = None"
  using signUp_result [of "\<lambda>req. Resolves \<lparr>r_data = ''session-1'', r_error = None\<rparr>"
                          "''a@b.com''" "''secret''" "''https://app.example''" "Some ''Ann''"
                          "\<lparr>r_data = ''session-1'', r_error = None\<rparr>" "''x''" JsNull]
        signUp_result [of "\<lambda>req. Resolves \<lparr>r_data = ''none'', r_error = Some ''User already registered''\<rparr>"
                          "''a@b.com''" "''secret''" "''https://app.example''" "Some ''Ann''"
                          "\<lparr>r_data = ''none'', r_error = Some ''User already registered''\<rparr>"
                          "''User already registered''" JsNull]
        signUp_result [of "\<lambda>req. Throws (JsString ''offline'') :: string auth_response outcome"
                          "''a@b.com''" "''secret''" "''https://app.example''" "Some ''Ann''"
                          "\<lparr>r_data = ''none'', r_error = None\<rparr>" "''x''" "JsString ''offline''"]
  by simp

text \<open>
  C6. Whatever the provider answers, \<open>signOut\<close> leaves the local user, session and
  loading flag as they were. The callback of the provider's auth-state-change event, given
  the null session of a sign-out, sets the user and the session to null; nothing is reloaded,
  the callback only updates the state.
\<close>

theorem signOut_leaves_state_to_the_event:
  "snd (signOut auth_signOut st) = st
   \<and> auth_state.user (onAuthStateChange event None (snd (signOut auth_signOut st))) = None
   \<and> auth_state.session (onAuthStateChange event None (snd (signOut auth_signOut st))) = None
   \<and> onAuthStateChange event None st' = \<lparr>user = None, session = None, loading = False\<rparr>"
  by (simp add: signOut_def onAuthStateChange_def split: outcome.splits)

lemma updateProfile_update_throws:
  assumes "date_now sb w = (t0, w1)"
    and "profiles_update sb \<lparr>p_name = n, p_avatar_url = js_or_str av '''', p_updated_at = t0\<rparr>
           (user.id' u) w1 = (Throws v, w2)"
  shows "fst (updateProfile sb (Some u) n av w) = \<lparr>error = v\<rparr>"
  using assms by (simp add: updateProfile_def)

lemma updateProfile_insert_throws:
  assumes "date_now sb w = (t0, w1)"
    and "profiles_update sb \<lparr>p_name = n, p_avatar_url = js_or_str av '''', p_updated_at = t0\<rparr>
           (user.id' u) w1 = (Resolves (Some e), w2)"
    and "code e = ''PGRST116''"
    and "date_now sb w2 = (t1, w3)" and "date_now sb w3 = (t2, w4)"
    and "profiles_insert sb \<lparr>id' = user.id' u, name = n, avatar_url = js_or_str av '''',
                             created_at = t1, updated_at = t2\<rparr> w4 = (Throws v, w5)"
  shows "fst (updateProfile sb (Some u) n av w) = \<lparr>error = v\<rparr>"
  using assms by (simp add: updateProfile_def)

text \<open>
  C8 as stated fails: \<open>signOut\<close> has no handler, so a value that the provider call
  throws is thrown to the caller of \<open>signOut\<close> and no object is returned.
\<close>

theorem signOut_propagates_counterexample:
  "fst (signOut (\<lambda>x. Throws (JsError ''Failed to fetch'')) auth_initial) = Throws (JsError ''Failed to fetch'')
   \<and> \<not> (\<exists>r. fst (signOut (\<lambda>x. Throws (JsError ''Failed to fetch'')) auth_initial) = Resolves r)"
  by (simp add: signOut_def)

text \<open>
  C8, amended. \<open>signUp\<close> and \<open>signIn\<close> catch every thrown value and return it as
  an \<open>Error\<close> value: the value itself when it is an instance of \<open>Error\<close>, and
  \<open>new Error('Unknown error')\<close> otherwise. \<open>signInWithMagicLink\<close> and
  \<open>updateProfile\<close> catch every thrown value and return an object whose error is an
  \<open>Error\<close> value whenever the thrown value is one. \<open>signOut\<close> catches nothing:
  a thrown value leaves it.
\<close>

theorem thrown_values_at_call_sites:
  "(auth_signUp \<lparr>su_email = em, su_password = pw, su_emailRedirectTo = origin @ ''/auth/callback'',
                 su_data_name = js_or_str nm ''''\<rparr> = Throws v \<longrightarrow>
      error (signUp auth_signUp origin em pw nm) = (if instanceofError v then v else JsError ''Unknown error'')
      \<and> instanceofError (error (signUp auth_signUp origin em pw nm)))
   \<and> (auth_signIn \<lparr>si_email = em, si_password = pw\<rparr> = Throws v \<longrightarrow>
      error (signIn auth_signIn em pw) = (if instanceofError v then v else JsError ''Unknown error'')
      \<and> instanceofError (error (signIn auth_signIn em pw)))
   \<and> (auth_signInWithOtp \<lparr>otp_email = em, otp_emailRedirectTo = origin @ ''/auth/callback''\<rparr> = Throws v
        \<and> instanceofError v \<longrightarrow>
      instanceofError (error (signInWithMagicLink auth_signInWithOtp origin em)))
   \<and> (date_now sb w = (t0, w1)
        \<and> profiles_update sb \<lparr>p_name = n, p_avatar_url = js_or_str av '''', p_updated_at = t0\<rparr>
             (user.id' u) w1 = (Throws v, w2)
        \<and> instanceofError v \<longrightarrow>
      instanceofError (error (fst (updateProfile sb (Some u) n av w))))
   \<and> (date_now sb' w = (t0, w1)
        \<and> profiles_update sb' \<lparr>p_name = n, p_avatar_url = js_or_str av '''', p_updated_at = t0\<rparr>
             (user.id' u) w1 = (Resolves (Some e), w2)
        \<and> code e = ''PGRST116''
        \<and> date_now sb' w2 = (t1, w3) \<and> date_now sb' w3 = (t2, w4)
        \<and> profiles_insert sb' \<lparr>id' = user.id' u, name = n, avatar_url = js_or_str av '''',
                                 created_at = t1, updated_at = t2\<rparr> w4 = (Throws v, w5)
        \<and> instanceofError v \<longrightarrow>
      instanceofError (error (fst (updateProfile sb' (Some u) n av w))))
   \<and> (auth_signOut () = Throws v \<longrightarrow> fst (signOut auth_signOut st) = Throws v)"
proof (intro conjI impI)
  assume "auth_signUp \<lparr>su_email = em, su_password = pw, su_emailRedirectTo = origin @ ''/auth/callback'',
                 su_data_name = js_or_str nm ''''\<rparr> = Throws v"
  then show "error (signUp auth_signUp origin em pw nm) =
               (if instanceofError v then v else JsError ''Unknown error'')"
    and "instanceofError (error (signUp auth_signUp origin em pw nm))"
    by (simp_all add: signUp_def)
next
  assume "auth_signIn \<lparr>si_email = em, si_password = pw\<rparr> = Throws v"
  then show "error (signIn auth_signIn em pw) = (if instanceofError v then v else JsError ''Unknown error'')"
    and "instanceofError (error (signIn auth_signIn em pw))"
    by (simp_all add: signIn_def)
next
  assume "auth_signInWithOtp \<lparr>otp_email = em, otp_emailRedirectTo = origin @ ''/auth/callback''\<rparr> = Throws v
        \<and> instanceofError v"
  then show "instanceofError (error (signInWithMagicLink auth_signInWithOtp origin em))"
    by (simp add: signInWithMagicLink_def)
next
  assume "date_now sb w = (t0, w1)
        \<and> profiles_update sb \<lparr>p_name = n, p_avatar_url = js_or_str av '''', p_updated_at = t0\<rparr>
             (user.id' u) w1 = (Throws v, w2)
        \<and> instanceofError v"
  then show "instanceofError (error (fst (updateProfile sb (Some u) n av w)))"
    using updateProfile_update_throws [of sb w t0 w1 n av u v w2] by simp
next
  assume "date_now sb' w = (t0, w1)
        \<and> profiles_update sb' \<lparr>p_name = n, p_avatar_url = js_or_str av '''', p_updated_at = t0\<rparr>
             (user.id' u) w1 = (Resolves (Some e), w2)
        \<and> code e = ''PGRST116''
        \<and> date_now sb' w2 = (t1, w3) \<and> date_now sb' w3 = (t2, w4)
        \<and> profiles_insert sb' \<lparr>id' = user.id' u, name = n, avatar_url = js_or_str av '''',
                                 created_at = t1, updated_at = t2\<rparr> w4 = (Throws v, w5)
        \<and> instanceofError v"
  then show "instanceofError (error (fst (updateProfile sb' (Some u) n av w)))"
    using updateProfile_insert_throws [of sb' w t0 w1 n av u e w2 t1 w3 t2 w4 v w5] by simp
next
  assume "auth_signOut () = Throws v"
  then show "fst (signOut auth_signOut st) = Throws v"
    by (simp add: signOut_def)
qed

theorem thrown_values_at_call_sites_witness:
  "error (signUp (\<lambda>req. Throws (JsString ''offline'') :: string auth_response outcome)
            ''https://app.example'' ''a@b.com'' ''secret'' None) = JsError ''Unknown error''
   \<and> error (signIn (\<lambda>req. Throws (JsString ''offline'') :: string auth_response outcome)
            ''a@b.com'' ''secret'') = JsError ''Unknown error''
   \<and> error (signUp (\<lambda>req. Throws (JsError ''Failed to fetch'') :: string auth_response outcome)
            ''https://app.example'' ''a@b.com'' ''secret'' None) = JsError ''Failed to fetch''
   \<and> instanceofError (error (signInWithMagicLink
            (\<lambda>req. Throws (JsError ''Failed to fetch'') :: string auth_response outcome)
            ''https://app.example'' ''a@b.com''))
   \<and> instanceofError (error (fst (updateProfile (flaky_store (JsError ''Failed to fetch'') True)
            (Some example_user) ''Ann'' None ())))
   \<and> instanceofError (error (fst (updateProfile (flaky_store (JsError ''Failed to fetch'') False)
            (Some example_user) ''Ann'' None ())))
   \<and> fst (signOut (\<lambda>x. Throws (JsError ''Failed to fetch'')) auth_initial) =
        Throws (JsError ''Failed to fetch'')"
proof -
  let ?v = "JsError ''Failed to fetch''"
  let ?t = "''2024-05-01T10:00:00.000Z''"
  note a = thrown_values_at_call_sites
      [of "\<lambda>req. Throws (JsString ''offline'') :: string auth_response outcome"
          "''a@b.com''" "''secret''" "''https://app.example''" None "JsString ''offline''"
          "\<lambda>req. Throws (JsString ''offline'') :: string auth_response outcome"
          "\<lambda>req. Throws (JsString ''offline'') :: string auth_response outcome"
          "flaky_store ?v True" "()" ?t "()" "''Ann''" None example_user "()"
          "flaky_store ?v False" no_rows ?t "()" ?t "()" "()"
          "\<lambda>x. Throws ?v" auth_initial]
  note b = thrown_values_at_call_sites
      [of "\<lambda>req. Throws ?v :: string auth_response outcome"
          "''a@b.com''" "''secret''" "''https://app.example''" None ?v
          "\<lambda>req. Throws ?v :: string auth_response outcome"
          "\<lambda>req. Throws ?v :: string auth_response outcome"
          "flaky_store ?v True" "()" ?t "()" "''Ann''" None example_user "()"
          "flaky_store ?v False" no_rows ?t "()" ?t "()" "()"
          "\<lambda>x. Throws ?v" auth_initial]
  show ?thesis
    using a b by (simp add: flaky_store_def no_rows_def)
qed

section \<open>Properties of updateProfile\<close>

lemma updateProfile_sent:
  assumes "date_now sb w = (t0, w1)"
    and "profiles_update sb \<lparr>p_name = n, p_avatar_url = js_or_str av '''', p_updated_at = t0\<rparr> (user.id' u) w1 = (r1, w2)"
    and "date_now sb w2 = (t1, w3)"
    and "date_now sb w3 = (t2, w4)"
  shows "sent (updateProfile sb (Some u) n av w) =
           ProfilesUpdate \<lparr>p_name = n, p_avatar_url = js_or_str av '''', p_updated_at = t0\<rparr> (user.id' u)
           # (if no_rows_condition r1
              then [ProfilesInsert \<lparr>id' = user.id' u, name = n, avatar_url = js_or_str av '''',
                                    created_at = t1, updated_at = t2\<rparr>]
              else [])"
  using assms
  by (cases r1) (auto simp: updateProfile_def sent_def Let_def split: prod.splits outcome.splits option.splits)

lemma no_rows_condition_iff:
  "no_rows_condition r = (\<exists>e. r = Resolves (Some e) \<and> code e = ''PGRST116'')"
  by (cases r rule: no_rows_condition.cases) auto

text \<open>
  C1. With a user, \<open>updateProfile\<close> first sends the update of the profile row filtered
  by the user's id, and then sends the insert with the same values if and only if the
  update resolved with an error whose code is \<open>PGRST116\<close>. On a success of the update, on
  any other error and on a thrown value, the update is the only request.
\<close>

theorem updateProfile_insert_iff_no_rows:
  assumes "date_now sb w = (t0, w1)"
    and "profiles_update sb \<lparr>p_name = n, p_avatar_url = js_or_str av '''', p_updated_at = t0\<rparr> (user.id' u) w1 = (r1, w2)"
    and "date_now sb w2 = (t1, w3)"
    and "date_now sb w3 = (t2, w4)"
  shows "sent (updateProfile sb (Some u) n av w) =
           ProfilesUpdate \<lparr>p_name = n, p_avatar_url = js_or_str av '''', p_updated_at = t0\<rparr> (user.id' u)
           # (if no_rows_condition r1
              then [ProfilesInsert \<lparr>id' = user.id' u, name = n, avatar_url = js_or_str av '''',
                                    created_at = t1, updated_at = t2\<rparr>]
              else [])
         \<and> ((\<exists>x \<in> set (sent (updateProfile sb (Some u) n av w)). is_insert x)
              \<longleftrightarrow> (\<exists>e. r1 = Resolves (Some e) \<and> code e = ''PGRST116''))"
proof -
  note s = updateProfile_sent [OF assms]
  have "(\<exists>x \<in> set (sent (updateProfile sb (Some u) n av w)). is_insert x) = no_rows_condition r1"
    by (simp add: s)
  then show ?thesis
    using s no_rows_condition_iff [of r1] by simp
qed
theorem updateProfile_insert_iff_no_rows_witness:
  "date_now (table_store length (Some no_rows)) empty_world =
     (''2024-05-01T10:00:00.000Z'', empty_world\<lparr>tick := 1\<rparr>)
   \<and> profiles_update (table_store length (Some no_rows))
        \<lparr>p_name = ''Ann'', p_avatar_url = js_or_str None '''', p_updated_at = ''2024-05-01T10:00:00.000Z''\<rparr>
        (user.id' example_user) (empty_world\<lparr>tick := 1\<rparr>) =
       (Resolves (Some no_rows), empty_world\<lparr>tick := 1\<rparr>)
   \<and> sent (updateProfile (table_store length (Some no_rows)) (Some example_user) ''Ann'' None empty_world) =
       [ProfilesUpdate \<lparr>p_name = ''Ann'', p_avatar_url = '''', p_updated_at = ''2024-05-01T10:00:00.000Z''\<rparr> ''u1'',
        ProfilesInsert \<lparr>id' = ''u1'', name = ''Ann'', avatar_url = '''',
                        created_at = ''2024-05-01T10:00:00.001Z'',
                        updated_at = ''2024-05-01T10:00:00.002Z''\<rparr>]
   \<and> (\<exists>x \<in> set (sent (updateProfile (table_store length (Some no_rows)) (Some example_user) ''Ann'' None empty_world)).
         is_insert x)"
proof -
  let ?sb = "table_store length (Some no_rows)"
  have h1: "date_now ?sb empty_world = (''2024-05-01T10:00:00.000Z'', empty_world\<lparr>tick := 1\<rparr>)"
    by (simp add: table_store_def table_now_def empty_world_def)
  have h2: "profiles_update ?sb
        \<lparr>p_name = ''Ann'', p_avatar_url = js_or_str None '''', p_updated_at = ''2024-05-01T10:00:00.000Z''\<rparr>
        (user.id' example_user) (empty_world\<lparr>tick := 1\<rparr>) =
       (Resolves (Some no_rows), empty_world\<lparr>tick := 1\<rparr>)"
    by (simp add: table_store_def table_update_def empty_world_def)
  have h3: "date_now ?sb (empty_world\<lparr>tick := 1\<rparr>) = (''2024-05-01T10:00:00.001Z'', empty_world\<lparr>tick := 2\<rparr>)"
    by (simp add: table_store_def table_now_def empty_world_def)
  have h4: "date_now ?sb (empty_world\<lparr>tick := 2\<rparr>) = (''2024-05-01T10:00:00.002Z'', empty_world\<lparr>tick := 3\<rparr>)"
    by (simp add: table_store_def table_now_def empty_world_def numeral_2_eq_2 numeral_3_eq_3)
  have nr: "no_rows_condition (Resolves (Some no_rows))"
    by (simp add: no_rows_def)
  show ?thesis
    using updateProfile_insert_iff_no_rows [OF h1 h2 h3 h4] h1 h2 nr
    by (simp add: example_user_def no_rows_def)
qed

text \<open>
  C9. Without a user, \<open>updateProfile\<close> returns \<open>{error: 'No user found'}\<close>, whose
  error is a string and not an instance of \<open>Error\<close>, and sends nothing to the store.
\<close>

theorem updateProfile_no_user:
  "updateProfile sb None n av w = (\<lparr>error = JsString ''No user found''\<rparr>, [], w)
   \<and> \<not> instanceofError (error (fst (updateProfile sb None n av w)))
   \<and> sent (updateProfile sb None n av w) = []
   \<and> world_after (updateProfile sb None n av w) = w"
  by (simp add: updateProfile_def sent_def world_after_def)
lemma updateProfile_table_existing:
  assumes "profile_rows w (user.id' u) = Some r"
  shows "updateProfile (table_store instant miss) (Some u) n av w =
    (\<lparr>error = JsNull\<rparr>,
     [ProfilesUpdate \<lparr>p_name = n, p_avatar_url = js_or_str av '''', p_updated_at = clock w (tick w)\<rparr> (user.id' u)],
     w\<lparr>tick := Suc (tick w),
       profile_rows := (profile_rows w)(user.id' u \<mapsto>
          r\<lparr>name := n, avatar_url := js_or_str av '''', updated_at := clock w (tick w)\<rparr>)\<rparr>)"
  using assms
  by (simp add: updateProfile_def table_store_def table_now_def table_update_def)

lemma updateProfile_table_missing:
  assumes "profile_rows w (user.id' u) = None" and "code e = ''PGRST116''"
  shows "updateProfile (table_store instant (Some e)) (Some u) n av w =
    (\<lparr>error = JsNull\<rparr>,
     [ProfilesUpdate \<lparr>p_name = n, p_avatar_url = js_or_str av '''', p_updated_at = clock w (tick w)\<rparr> (user.id' u),
      ProfilesInsert \<lparr>id' = user.id' u, name = n, avatar_url = js_or_str av '''',
                      created_at = clock w (Suc (tick w)), updated_at = clock w (Suc (Suc (tick w)))\<rparr>],
     w\<lparr>tick := Suc (Suc (Suc (tick w))),
       profile_rows := (profile_rows w)(user.id' u \<mapsto>
          \<lparr>id' = user.id' u, name = n, avatar_url = js_or_str av '''',
           created_at = clock w (Suc (tick w)), updated_at = clock w (Suc (Suc (tick w)))\<rparr>)\<rparr>)"
  using assms
  by (simp add: updateProfile_def table_store_def table_now_def table_update_def table_insert_def Let_def)

lemma updateProfile_repeated_existing:
  "profile_rows w (user.id' u) = Some r \<Longrightarrow>
   updateProfile_repeated (Suc k) (table_store instant miss) (Some u) n av w =
     w\<lparr>tick := Suc (tick w + k),
       profile_rows := (profile_rows w)(user.id' u \<mapsto>
          r\<lparr>name := n, avatar_url := js_or_str av '''', updated_at := clock w (tick w + k)\<rparr>)\<rparr>"
proof (induction k arbitrary: w r)
  case 0
  show ?case
    by (simp only: updateProfile_repeated.simps updateProfile_table_existing [OF 0]
          world_after_def snd_conv add_0_right)
next
  case (Suc k)
  let ?w1 = "world_after (updateProfile (table_store instant miss) (Some u) n av w)"
  have w1: "?w1 = w\<lparr>tick := Suc (tick w),
       profile_rows := (profile_rows w)(user.id' u \<mapsto>
          r\<lparr>name := n, avatar_url := js_or_str av '''', updated_at := clock w (tick w)\<rparr>)\<rparr>"
    by (simp only: updateProfile_table_existing [OF Suc.prems] world_after_def snd_conv)
  have row1: "profile_rows ?w1 (user.id' u) =
     Some (r\<lparr>name := n, avatar_url := js_or_str av '''', updated_at := clock w (tick w)\<rparr>)"
    by (simp add: w1)
  have "updateProfile_repeated (Suc (Suc k)) (table_store instant miss) (Some u) n av w =
        updateProfile_repeated (Suc k) (table_store instant miss) (Some u) n av ?w1"
    by simp
  also have "\<dots> = ?w1\<lparr>tick := Suc (tick ?w1 + k),
       profile_rows := (profile_rows ?w1)(user.id' u \<mapsto>
          (r\<lparr>name := n, avatar_url := js_or_str av '''', updated_at := clock w (tick w)\<rparr>)
            \<lparr>name := n, avatar_url := js_or_str av '''', updated_at := clock ?w1 (tick ?w1 + k)\<rparr>)\<rparr>"
    by (rule Suc.IH [OF row1])
  also have "\<dots> = w\<lparr>tick := Suc (tick w + Suc k),
       profile_rows := (profile_rows w)(user.id' u \<mapsto>
          r\<lparr>name := n, avatar_url := js_or_str av '''', updated_at := clock w (tick w + Suc k)\<rparr>)\<rparr>"
    by (simp add: w1)
  finally show ?case .
qed
lemma updateProfile_repeated_0_or_more:
  assumes "profile_rows w (user.id' u) = Some r"
  shows "\<exists>r'. profile_rows (updateProfile_repeated j (table_store instant miss) (Some u) n av w) (user.id' u) = Some r'
       \<and> tick (updateProfile_repeated j (table_store instant miss) (Some u) n av w) = tick w + j
       \<and> clock (updateProfile_repeated j (table_store instant miss) (Some u) n av w) = clock w"
proof (cases j)
  case 0
  then show ?thesis using assms by simp
next
  case (Suc k)
  show ?thesis
    unfolding Suc updateProfile_repeated_existing [OF assms] by simp
qed

text \<open>
  C5. On the reference store, once the profile row exists every one of a run of calls
  with the same name and avatar sends the update alone and gets no error, and after any
  number of them the row holds that name and that avatar, its other columns as they were
  and \<open>updated_at\<close> as the last call wrote it. When the row is not there and the store
  reports the "no rows" condition, the first call inserts it and the later calls update
  it, with the same final row.
\<close>

theorem updateProfile_idempotent_once_row_exists:
  "(profile_rows w (user.id' u) = Some r \<longrightarrow>
      fst (updateProfile (table_store instant miss) (Some u) n av
             (updateProfile_repeated j (table_store instant miss) (Some u) n av w)) = \<lparr>error = JsNull\<rparr>
    \<and> sent (updateProfile (table_store instant miss) (Some u) n av
             (updateProfile_repeated j (table_store instant miss) (Some u) n av w)) =
        [ProfilesUpdate \<lparr>p_name = n, p_avatar_url = js_or_str av '''',
                         p_updated_at = clock w (tick w + j)\<rparr> (user.id' u)]
    \<and> profile_rows (updateProfile_repeated (Suc k) (table_store instant miss) (Some u) n av w) (user.id' u) =
        Some (r\<lparr>name := n, avatar_url := js_or_str av '''', updated_at := clock w (tick w + k)\<rparr>))
   \<and> (profile_rows w' (user.id' u) = None \<and> code e = ''PGRST116'' \<longrightarrow>
      sent (updateProfile (table_store instant (Some e)) (Some u) n av w') =
        [ProfilesUpdate \<lparr>p_name = n, p_avatar_url = js_or_str av '''',
                         p_updated_at = clock w' (tick w')\<rparr> (user.id' u),
         ProfilesInsert \<lparr>id' = user.id' u, name = n, avatar_url = js_or_str av '''',
                         created_at = clock w' (tick w' + 1), updated_at = clock w' (tick w' + 2)\<rparr>]
    \<and> profile_rows (updateProfile_repeated (Suc k) (table_store instant (Some e)) (Some u) n av w') (user.id' u) =
        Some \<lparr>id' = user.id' u, name = n, avatar_url = js_or_str av '''',
              created_at = clock w' (tick w' + 1), updated_at = clock w' (tick w' + 2 + k)\<rparr>)"
proof (intro conjI impI)
  assume row: "profile_rows w (user.id' u) = Some r"
  let ?sb = "table_store instant miss"
  let ?wj = "updateProfile_repeated j ?sb (Some u) n av w"
  obtain r' where r': "profile_rows ?wj (user.id' u) = Some r'"
    and tk: "tick ?wj = tick w + j" and ck: "clock ?wj = clock w"
    using updateProfile_repeated_0_or_more [OF row, of j instant miss n av] by blast
  show "fst (updateProfile ?sb (Some u) n av ?wj) = \<lparr>error = JsNull\<rparr>"
    by (simp only: updateProfile_table_existing [OF r'] fst_conv)
  show "sent (updateProfile ?sb (Some u) n av ?wj) =
        [ProfilesUpdate \<lparr>p_name = n, p_avatar_url = js_or_str av '''',
                         p_updated_at = clock w (tick w + j)\<rparr> (user.id' u)]"
    by (simp only: updateProfile_table_existing [OF r'] sent_def fst_conv snd_conv tk ck)
  show "profile_rows (updateProfile_repeated (Suc k) ?sb (Some u) n av w) (user.id' u) =
        Some (r\<lparr>name := n, avatar_url := js_or_str av '''', updated_at := clock w (tick w + k)\<rparr>)"
    unfolding updateProfile_repeated_existing [OF row] by simp
next
  assume "profile_rows w' (user.id' u) = None \<and> code e = ''PGRST116''"
  then have miss: "profile_rows w' (user.id' u) = None" and e: "code e = ''PGRST116''" by simp_all
  note first = updateProfile_table_missing [OF miss e, of instant n av]
  show "sent (updateProfile (table_store instant (Some e)) (Some u) n av w') =
        [ProfilesUpdate \<lparr>p_name = n, p_avatar_url = js_or_str av '''',
                         p_updated_at = clock w' (tick w')\<rparr> (user.id' u),
         ProfilesInsert \<lparr>id' = user.id' u, name = n, avatar_url = js_or_str av '''',
                         created_at = clock w' (tick w' + 1), updated_at = clock w' (tick w' + 2)\<rparr>]"
    by (simp add: first sent_def)
  let ?w1 = "world_after (updateProfile (table_store instant (Some e)) (Some u) n av w')"
  let ?row = "\<lparr>id' = user.id' u, name = n, avatar_url = js_or_str av '''',
              created_at = clock w' (Suc (tick w')), updated_at = clock w' (Suc (Suc (tick w')))\<rparr>"
  have row1: "profile_rows ?w1 (user.id' u) = Some ?row"
    and tk1: "tick ?w1 = tick w' + 3" and ck1: "clock ?w1 = clock w'"
    unfolding first world_after_def by simp_all
  show "profile_rows (updateProfile_repeated (Suc k) (table_store instant (Some e)) (Some u) n av w') (user.id' u) =
        Some \<lparr>id' = user.id' u, name = n, avatar_url = js_or_str av '''',
              created_at = clock w' (tick w' + 1), updated_at = clock w' (tick w' + 2 + k)\<rparr>"
  proof (cases k)
    case 0
    then show ?thesis using row1 by simp
  next
    case (Suc k')
    have eq: "updateProfile_repeated (Suc k) (table_store instant (Some e)) (Some u) n av w' =
          updateProfile_repeated (Suc k') (table_store instant (Some e)) (Some u) n av ?w1"
      by (simp add: Suc)
    have idx: "tick ?w1 + k' = tick w' + 2 + k"
      by (simp add: tk1 Suc)
    show ?thesis
      unfolding eq updateProfile_repeated_existing [OF row1] by (simp add: ck1 idx)
  qed
qed
theorem updateProfile_idempotent_once_row_exists_witness:
  "profile_rows world_with_row (user.id' example_user) = Some example_row
   \<and> sent (updateProfile (table_store length None) (Some example_user) ''Ann B'' None
            (updateProfile_repeated 1 (table_store length None) (Some example_user) ''Ann B'' None world_with_row)) =
        [ProfilesUpdate \<lparr>p_name = ''Ann B'', p_avatar_url = '''',
                         p_updated_at = ''2024-05-01T10:00:00.001Z''\<rparr> ''u1'']
   \<and> profile_rows (updateProfile_repeated 3 (table_store length None) (Some example_user) ''Ann B'' None
                     world_with_row) ''u1'' =
        Some \<lparr>id' = ''u1'', name = ''Ann B'', avatar_url = '''',
              created_at = ''2024-04-01T09:00:00.000Z'', updated_at = ''2024-05-01T10:00:00.002Z''\<rparr>
   \<and> profile_rows empty_world (user.id' example_user) = None \<and> code no_rows = ''PGRST116''
   \<and> profile_rows (updateProfile_repeated 3 (table_store length (Some no_rows)) (Some example_user) ''Ann B'' None
                     empty_world) ''u1'' =
        Some \<lparr>id' = ''u1'', name = ''Ann B'', avatar_url = '''',
              created_at = ''2024-05-01T10:00:00.001Z'', updated_at = ''2024-05-01T10:00:00.003Z''\<rparr>"
proof -
  have h1: "profile_rows world_with_row (user.id' example_user) = Some example_row"
    by (simp add: world_with_row_def example_user_def)
  have h2: "profile_rows empty_world (user.id' example_user) = None \<and> code no_rows = ''PGRST116''"
    by (simp add: empty_world_def no_rows_def)
  have n3: "(3::nat) = Suc 2" and n1: "(1::nat) = Suc 0"
    by simp_all
  show ?thesis
    using updateProfile_idempotent_once_row_exists
            [of world_with_row example_user example_row length None "''Ann B''" None 1 2
                empty_world no_rows]
          h1 h2
    by (simp add: n3 world_with_row_def empty_world_def example_user_def example_row_def
          numeral_2_eq_2)
qed

lemma js_or_str_empty: "js_or_str av [] = (case av of None \<Rightarrow> [] | Some s \<Rightarrow> if s \<noteq> [] then s else [])"
  by (cases av) auto

lemma updateProfile_avatar_sent:
  "x \<in> set (sent (updateProfile sb usr n av w)) \<Longrightarrow> request_avatar_url x = Some (js_or_str av [])"
  by (auto simp: updateProfile_def sent_def Let_def
           split: option.splits prod.splits outcome.splits if_splits)

text \<open>
  C10. Every request that \<open>updateProfile\<close> sends, the update and the insert alike,
  carries as \<open>avatar_url\<close> the given \<open>avatarUrl\<close> when that is a non-empty string and
  the empty string otherwise. So on the reference store a call with a name alone, as
  \<open>handleUpdateProfile\<close> makes it, replaces the avatar of an existing row by the empty
  string.
\<close>

theorem updateProfile_avatar_url:
  "(\<forall>x \<in> set (sent (updateProfile sb usr n av w)).
       request_avatar_url x = Some (case av of None \<Rightarrow> [] | Some s \<Rightarrow> if s \<noteq> [] then s else []))
   \<and> (profile_rows w' (user.id' u) = Some r \<longrightarrow>
        profile_rows (world_after (updateProfile (table_store instant miss) (Some u) n None w')) (user.id' u) =
          Some (r\<lparr>name := n, avatar_url := [], updated_at := clock w' (tick w')\<rparr>)
      \<and> profile_rows (snd (handleUpdateProfile (context_updateProfile (table_store instant miss) (Some u))
                               st w')) (user.id' u) =
          Some (r\<lparr>name := newName st, avatar_url := [], updated_at := clock w' (tick w')\<rparr>))"
proof (intro conjI ballI impI)
  fix x assume "x \<in> set (sent (updateProfile sb usr n av w))"
  then show "request_avatar_url x = Some (case av of None \<Rightarrow> [] | Some s \<Rightarrow> if s \<noteq> [] then s else [])"
    using updateProfile_avatar_sent [of x sb usr n av w] js_or_str_empty [of av] by simp
next
  assume row: "profile_rows w' (user.id' u) = Some r"
  show "profile_rows (world_after (updateProfile (table_store instant miss) (Some u) n None w')) (user.id' u) =
          Some (r\<lparr>name := n, avatar_url := [], updated_at := clock w' (tick w')\<rparr>)"
    unfolding updateProfile_table_existing [OF row] world_after_def by simp
  show "profile_rows (snd (handleUpdateProfile (context_updateProfile (table_store instant miss) (Some u))
                               st w')) (user.id' u) =
          Some (r\<lparr>name := newName st, avatar_url := [], updated_at := clock w' (tick w')\<rparr>)"
    unfolding handleUpdateProfile_def context_updateProfile_def updateProfile_table_existing [OF row]
    by simp
qed

theorem updateProfile_avatar_url_witness:
  "map request_avatar_url
       (sent (updateProfile (table_store length None) (Some example_user) ''Ann'' None world_with_row)) =
     [Some []]
   \<and> profile_rows world_with_row (user.id' example_user) = Some example_row
   \<and> avatar_url example_row = ''https://cdn/ann.png''
   \<and> profile_rows (world_after (updateProfile (table_store length None) (Some example_user) ''Ann'' None
                                   world_with_row)) ''u1'' =
        Some \<lparr>id' = ''u1'', name = ''Ann'', avatar_url = '''',
              created_at = ''2024-04-01T09:00:00.000Z'', updated_at = ''2024-05-01T10:00:00.000Z''\<rparr>"
proof -
  have h: "profile_rows world_with_row (user.id' example_user) = Some example_row"
    by (simp add: world_with_row_def example_user_def)
  show ?thesis
    using updateProfile_avatar_url
            [of "table_store length None" "Some example_user" "''Ann''" None world_with_row
                world_with_row example_user example_row length None dashboard_initial] h
          updateProfile_table_existing [OF h, of length None "''Ann''" None]
    by (simp add: world_with_row_def example_user_def example_row_def sent_def)
qed

section \<open>Properties of the Dashboard\<close>

lemma default_name_cases:
  "default_name u =
     (case metadata_get u ''name'' of
        Some m \<Rightarrow> if m \<noteq> [] then m
                  else (case email u of
                          Some em \<Rightarrow> if takeWhile (\<lambda>c. c \<noteq> CHR ''@'') em \<noteq> []
                                     then takeWhile (\<lambda>c. c \<noteq> CHR ''@'') em else ''User''
                        | None \<Rightarrow> ''User'')
      | None \<Rightarrow> (case email u of
                   Some em \<Rightarrow> if takeWhile (\<lambda>c. c \<noteq> CHR ''@'') em \<noteq> []
                              then takeWhile (\<lambda>c. c \<noteq> CHR ''@'') em else ''User''
                 | None \<Rightarrow> ''User''))"
  by (simp add: default_name_def email_local_part_def split: option.splits)

lemma default_name_not_empty: "default_name u \<noteq> []"
  by (simp add: default_name_cases split: option.splits)

lemma fetchUserData_profile_not_found:
  assumes "profiles_select_single sb (user.id' u) w = (Resolves resp, w1)"
    and "resp_error resp = Some e" and "code e = ''PGRST116''"
    and "date_now sb w1 = (t1, w2)" and "date_now sb w2 = (t2, w3)"
  shows "fst (snd (snd (fetchUserData_profile sb u st w))) =
           [ProfilesSelectSingle (user.id' u),
            ProfilesInsertSelectSingle
              \<lparr>id' = user.id' u, name = default_name u,
               avatar_url = js_or_str (metadata_get u ''avatar_url'') '''',
               created_at = t1, updated_at = t2\<rparr>]"
  using assms
  by (auto simp: fetchUserData_profile_def Let_def split: prod.splits outcome.splits option.splits)

lemma fetchUserData_sent:
  "sent (fetchUserData sb (Some u) st w) =
     fst (snd (snd (fetchUserData_profile sb u st w)))
     @ (case fst (fetchUserData_profile sb u st w) of
          Throws e \<Rightarrow> [] | Resolves x \<Rightarrow> [ResumesSelect (resumes_query u)])"
  by (auto simp: fetchUserData_def sent_def Let_def split: prod.splits outcome.splits option.splits)

lemma fetchUserData_inserts_not_found:
  assumes "profiles_select_single sb (user.id' u) w = (Resolves resp, w1)"
    and "resp_error resp = Some e" and "code e = ''PGRST116''"
    and "date_now sb w1 = (t1, w2)" and "date_now sb w2 = (t2, w3)"
  shows "filter is_insert (sent (fetchUserData sb (Some u) st w)) =
           [ProfilesInsertSelectSingle
              \<lparr>id' = user.id' u, name = default_name u,
               avatar_url = js_or_str (metadata_get u ''avatar_url'') '''',
               created_at = t1, updated_at = t2\<rparr>]"
  unfolding fetchUserData_sent fetchUserData_profile_not_found [OF assms]
  by (simp split: outcome.splits)

lemma fetchUserData_table_missing:
  assumes "profile_rows w (user.id' u) = None"
  shows "fetchUserData_profile (table_store instant miss) u st w =
     (Resolves (),
      st\<lparr>profile := Some \<lparr>id' = user.id' u, name = default_name u,
               avatar_url = js_or_str (metadata_get u ''avatar_url'') '''',
               created_at = clock w (tick w), updated_at = clock w (Suc (tick w))\<rparr>,
         newName := default_name u\<rparr>,
      [ProfilesSelectSingle (user.id' u),
       ProfilesInsertSelectSingle \<lparr>id' = user.id' u, name = default_name u,
               avatar_url = js_or_str (metadata_get u ''avatar_url'') '''',
               created_at = clock w (tick w), updated_at = clock w (Suc (tick w))\<rparr>],
      w\<lparr>tick := Suc (Suc (tick w)),
        profile_rows := (profile_rows w)(user.id' u \<mapsto>
           \<lparr>id' = user.id' u, name = default_name u,
               avatar_url = js_or_str (metadata_get u ''avatar_url'') '''',
               created_at = clock w (tick w), updated_at = clock w (Suc (tick w))\<rparr>)\<rparr>)"
  using assms
  by (simp add: fetchUserData_profile_def table_store_def table_now_def table_select_single_def
        table_insert_select_single_def no_rows_def Let_def default_name_not_empty)

lemma fetchUserData_table_existing:
  assumes "profile_rows w (user.id' u) = Some r"
  shows "fetchUserData_profile (table_store instant miss) u st w =
     (Resolves (), st\<lparr>profile := Some r, newName := name r\<rparr>, [ProfilesSelectSingle (user.id' u)], w)"
  using assms
  by (simp add: fetchUserData_profile_def table_store_def table_select_single_def Let_def)

lemma table_store_sel:
  "date_now (table_store instant miss) = table_now"
  "profiles_update (table_store instant miss) = table_update miss"
  "profiles_insert (table_store instant miss) = table_insert"
  "profiles_select_single (table_store instant miss) = table_select_single"
  "profiles_insert_select_single (table_store instant miss) = table_insert_select_single"
  "resumes_select (table_store instant miss) = table_resumes_select instant"
  by (simp_all add: table_store_def)

lemma fetchUserData_table:
  "fetchUserData (table_store instant miss) (Some u) st w =
     (case fetchUserData_profile (table_store instant miss) u st w of
        (Throws e, st1, reqs1, w1) \<Rightarrow> (st1\<lparr>loading := False\<rparr>, reqs1, w1)
      | (Resolves x, st1, reqs1, w1) \<Rightarrow>
          (st1\<lparr>resumes := order_rows instant (resumes_query u)
                              (filter (\<lambda>r. user_id r = q_user_id (resumes_query u)) (resume_rows w1)),
               loading := False\<rparr>,
           reqs1 @ [ResumesSelect (resumes_query u)], w1))"
  by (simp add: fetchUserData_def table_store_sel table_resumes_select_def Let_def
           split: prod.splits outcome.splits)

lemma fetchUserData_table_profile:
  "profile (fst (fetchUserData (table_store instant miss) (Some u) st w)) =
     profile (fst (snd (fetchUserData_profile (table_store instant miss) u st w)))"
  by (simp add: fetchUserData_table split: prod.splits outcome.splits)

text \<open>
  C2. When the fetch of the profile resolves with the error code \<open>PGRST116\<close>,
  \<open>fetchUserData\<close> sends exactly one insert. Its row has the user's id and as name the
  metadata name when that is a non-empty string, else the part of the email before the first
  \<open>@\<close> when that is non-empty, else \<open>User\<close>. On the reference store, for a user
  without a profile row the page then shows that name; for the email \<open>a@b.com\<close> and no
  metadata name it shows the name \<open>a\<close> and the email \<open>a@b.com\<close>.
\<close>

theorem fetchUserData_default_profile:
  "(profiles_select_single sb (user.id' u) w = (Resolves resp, w1)
      \<and> resp_error resp = Some e \<and> code e = ''PGRST116''
      \<and> date_now sb w1 = (t1, w2) \<and> date_now sb w2 = (t2, w3) \<longrightarrow>
      filter is_insert (sent (fetchUserData sb (Some u) st w)) =
        [ProfilesInsertSelectSingle
           \<lparr>id' = user.id' u,
            name = (case metadata_get u ''name'' of
                      Some m \<Rightarrow> if m \<noteq> [] then m
                                else (case email u of
                                        Some em \<Rightarrow> if takeWhile (\<lambda>c. c \<noteq> CHR ''@'') em \<noteq> []
                                                   then takeWhile (\<lambda>c. c \<noteq> CHR ''@'') em else ''User''
                                      | None \<Rightarrow> ''User'')
                    | None \<Rightarrow> (case email u of
                                 Some em \<Rightarrow> if takeWhile (\<lambda>c. c \<noteq> CHR ''@'') em \<noteq> []
                                            then takeWhile (\<lambda>c. c \<noteq> CHR ''@'') em else ''User''
                               | None \<Rightarrow> ''User'')),
            avatar_url = js_or_str (metadata_get u ''avatar_url'') '''',
            created_at = t1, updated_at = t2\<rparr>])
   \<and> (profile_rows w' (user.id' u') = None \<longrightarrow>
        displayed_name (fst (fetchUserData (table_store instant miss) (Some u') st w')) = default_name u'
      \<and> map_option name (profile_rows (world_after (fetchUserData (table_store instant miss) (Some u') st w'))
                             (user.id' u')) = Some (default_name u'))
   \<and> (profile_rows w' (user.id' u') = None \<and> email u' = Some ''a@b.com''
        \<and> metadata_get u' ''name'' = None \<longrightarrow>
        displayed_name (fst (fetchUserData (table_store instant miss) (Some u') st w')) = ''a''
      \<and> displayed_email (Some u') = Some ''a@b.com'')"
proof (intro conjI impI)
  assume a: "profiles_select_single sb (user.id' u) w = (Resolves resp, w1)
      \<and> resp_error resp = Some e \<and> code e = ''PGRST116''
      \<and> date_now sb w1 = (t1, w2) \<and> date_now sb w2 = (t2, w3)"
  then have "filter is_insert (sent (fetchUserData sb (Some u) st w)) =
           [ProfilesInsertSelectSingle
              \<lparr>id' = user.id' u, name = default_name u,
               avatar_url = js_or_str (metadata_get u ''avatar_url'') '''',
               created_at = t1, updated_at = t2\<rparr>]"
    using fetchUserData_inserts_not_found [of sb u w resp w1 e t1 w2 t2 w3 st] by blast
  then show "filter is_insert (sent (fetchUserData sb (Some u) st w)) =
        [ProfilesInsertSelectSingle
           \<lparr>id' = user.id' u,
            name = (case metadata_get u ''name'' of
                      Some m \<Rightarrow> if m \<noteq> [] then m
                                else (case email u of
                                        Some em \<Rightarrow> if takeWhile (\<lambda>c. c \<noteq> CHR ''@'') em \<noteq> []
                                                   then takeWhile (\<lambda>c. c \<noteq> CHR ''@'') em else ''User''
                                      | None \<Rightarrow> ''User'')
                    | None \<Rightarrow> (case email u of
                                 Some em \<Rightarrow> if takeWhile (\<lambda>c. c \<noteq> CHR ''@'') em \<noteq> []
                                            then takeWhile (\<lambda>c. c \<noteq> CHR ''@'') em else ''User''
                               | None \<Rightarrow> ''User'')),
            avatar_url = js_or_str (metadata_get u ''avatar_url'') '''',
            created_at = t1, updated_at = t2\<rparr>]"
    by (simp only: default_name_cases [symmetric])
next
  assume miss: "profile_rows w' (user.id' u') = None"
  show "displayed_name (fst (fetchUserData (table_store instant miss) (Some u') st w')) = default_name u'"
    by (simp add: displayed_name_def fetchUserData_table_profile fetchUserData_table_missing [OF miss]
          default_name_not_empty)
  show "map_option name (profile_rows (world_after (fetchUserData (table_store instant miss) (Some u') st w'))
                             (user.id' u')) = Some (default_name u')"
    by (simp add: fetchUserData_table fetchUserData_table_missing [OF miss] world_after_def)
next
  assume a: "profile_rows w' (user.id' u') = None \<and> email u' = Some ''a@b.com''
        \<and> metadata_get u' ''name'' = None"
  then have miss: "profile_rows w' (user.id' u') = None" by simp
  have dn: "default_name u' = ''a''"
    using a by (simp add: default_name_cases)
  show "displayed_name (fst (fetchUserData (table_store instant miss) (Some u') st w')) = ''a''"
    by (simp add: displayed_name_def fetchUserData_table_profile fetchUserData_table_missing [OF miss] dn)
  show "displayed_email (Some u') = Some ''a@b.com''"
    using a by (simp add: displayed_email_def)
qed

theorem fetchUserData_default_profile_witness:
  "profiles_select_single (table_store length None) (user.id' example_user) empty_world =
      (Resolves \<lparr>resp_data = None, resp_error = Some no_rows\<rparr>, empty_world)
   \<and> code no_rows = ''PGRST116''
   \<and> filter is_insert (sent (fetchUserData (table_store length None) (Some example_user)
                                dashboard_initial empty_world)) =
        [ProfilesInsertSelectSingle
           \<lparr>id' = ''u1'', name = ''a'', avatar_url = '''',
            created_at = ''2024-05-01T10:00:00.000Z'', updated_at = ''2024-05-01T10:00:00.001Z''\<rparr>]
   \<and> profile_rows empty_world (user.id' example_user) = None
   \<and> email example_user = Some ''a@b.com''
   \<and> metadata_get example_user ''name'' = None
   \<and> displayed_name (fst (fetchUserData (table_store length None) (Some example_user)
                              dashboard_initial empty_world)) = ''a''
   \<and> displayed_email (Some example_user) = Some ''a@b.com''"
proof -
  let ?sb = "table_store length None"
  have h1: "profiles_select_single ?sb (user.id' example_user) empty_world =
      (Resolves \<lparr>resp_data = None, resp_error = Some no_rows\<rparr>, empty_world)"
    by (simp add: table_store_def table_select_single_def empty_world_def)
  have h2: "resp_error \<lparr>resp_data = (None :: profile_row option), resp_error = Some no_rows\<rparr> = Some no_rows"
    and h3: "code no_rows = ''PGRST116''"
    by (simp_all add: no_rows_def)
  have h4: "date_now ?sb empty_world = (''2024-05-01T10:00:00.000Z'', empty_world\<lparr>tick := 1\<rparr>)"
    by (simp add: table_store_def table_now_def empty_world_def)
  have h5: "date_now ?sb (empty_world\<lparr>tick := 1\<rparr>) = (''2024-05-01T10:00:00.001Z'', empty_world\<lparr>tick := 2\<rparr>)"
    by (simp add: table_store_def table_now_def empty_world_def)
  have h6: "profile_rows empty_world (user.id' example_user) = None"
    by (simp add: empty_world_def)
  have h7: "email example_user = Some ''a@b.com''" and h8: "metadata_get example_user ''name'' = None"
    by (simp_all add: example_user_def metadata_get_def)
  show ?thesis
    using fetchUserData_default_profile
            [of ?sb example_user empty_world "\<lparr>resp_data = None, resp_error = Some no_rows\<rparr>"
                empty_world no_rows "''2024-05-01T10:00:00.000Z''" "empty_world\<lparr>tick := 1\<rparr>"
                "''2024-05-01T10:00:00.001Z''" "empty_world\<lparr>tick := 2\<rparr>" dashboard_initial
                empty_world example_user length None]
          h1 h2 h3 h4 h5 h6 h7 h8
    by (simp add: example_user_def metadata_get_def default_name_def email_local_part_def)
qed

text \<open>
  C7. \<open>handleUpdateProfile\<close> leaves the dashboard state as it was when the call of
  \<open>updateProfile\<close> throws and when it returns an error (a truthy \<open>error\<close> field: every
  error object and every non-empty string). Only when the call returns without an error is
  the name of the in-memory profile set to the new name.
\<close>

theorem handleUpdateProfile_applies_name_on_success_only:
  "(updateProfile_fn (newName st) w = (Throws v, w1) \<longrightarrow>
      fst (handleUpdateProfile updateProfile_fn st w) = st)
   \<and> (updateProfile_fn (newName st) w = (Resolves res, w1) \<and> truthy (error res) \<longrightarrow>
      fst (handleUpdateProfile updateProfile_fn st w) = st)
   \<and> (updateProfile_fn (newName st) w = (Resolves res, w1) \<and> \<not> truthy (error res) \<longrightarrow>
      fst (handleUpdateProfile updateProfile_fn st w) =
        st\<lparr>profile := map_option (\<lambda>prev. prev\<lparr>name := newName st\<rparr>) (profile st),
           editingProfile := False\<rparr>)
   \<and> (profile (fst (handleUpdateProfile updateProfile_fn st w)) \<noteq> profile st \<longrightarrow>
      (\<exists>res' w'. updateProfile_fn (newName st) w = (Resolves res', w') \<and> \<not> truthy (error res')))
   \<and> truthy (JsError m) \<and> truthy (JsAuthError m) \<and> truthy (JsPostgrestError e)
   \<and> truthy (JsString ''No user found'') \<and> \<not> truthy JsNull"
  by (auto simp: handleUpdateProfile_def Let_def split: prod.splits outcome.splits if_splits)

theorem handleUpdateProfile_applies_name_on_success_only_witness:
  "context_updateProfile (table_store length None) (Some example_user) (newName editing_dashboard)
       world_with_row =
     (Resolves \<lparr>error = JsNull\<rparr>,
      world_after (updateProfile (table_store length None) (Some example_user) ''Ann B'' None world_with_row))
   \<and> \<not> truthy (error \<lparr>error = JsNull\<rparr>)
   \<and> map_option name (profile (fst (handleUpdateProfile
          (context_updateProfile (table_store length None) (Some example_user))
          editing_dashboard world_with_row))) = Some ''Ann B''
   \<and> context_updateProfile (table_store length None) None (newName editing_dashboard) world_with_row =
     (Resolves \<lparr>error = JsString ''No user found''\<rparr>, world_with_row)
   \<and> truthy (error \<lparr>error = JsString ''No user found''\<rparr>)
   \<and> fst (handleUpdateProfile (context_updateProfile (table_store length None) None)
          editing_dashboard world_with_row) = editing_dashboard
   \<and> fst (handleUpdateProfile (\<lambda>n w. (Throws (JsError ''Failed to fetch''), w))
          editing_dashboard world_with_row) = editing_dashboard"
proof -
  have row: "profile_rows world_with_row (user.id' example_user) = Some example_row"
    by (simp add: world_with_row_def example_user_def)
  have h1: "context_updateProfile (table_store length None) (Some example_user) (newName editing_dashboard)
       world_with_row =
     (Resolves \<lparr>error = JsNull\<rparr>,
      world_after (updateProfile (table_store length None) (Some example_user) ''Ann B'' None world_with_row))"
    by (simp add: context_updateProfile_def updateProfile_table_existing [OF row] world_after_def
          editing_dashboard_def)
  have h2: "context_updateProfile (table_store length None) None (newName editing_dashboard) world_with_row =
     (Resolves \<lparr>error = JsString ''No user found''\<rparr>, world_with_row)"
    by (simp add: context_updateProfile_def updateProfile_def)
  have h3: "(\<lambda>n w. (Throws (JsError ''Failed to fetch''), w)) (newName editing_dashboard) world_with_row =
     (Throws (JsError ''Failed to fetch'') :: err_result outcome, world_with_row)"
    by simp
  have a: "fst (handleUpdateProfile (context_updateProfile (table_store length None) (Some example_user))
          editing_dashboard world_with_row) =
        editing_dashboard\<lparr>profile := map_option (\<lambda>prev. prev\<lparr>name := newName editing_dashboard\<rparr>)
                                        (profile editing_dashboard),
           editingProfile := False\<rparr>"
    using handleUpdateProfile_applies_name_on_success_only
            [of "context_updateProfile (table_store length None) (Some example_user)" editing_dashboard
                world_with_row JsNull _ "\<lparr>error = JsNull\<rparr>"] h1
    by simp
  have b: "fst (handleUpdateProfile (context_updateProfile (table_store length None) None)
          editing_dashboard world_with_row) = editing_dashboard"
    using handleUpdateProfile_applies_name_on_success_only
            [of "context_updateProfile (table_store length None) None" editing_dashboard
                world_with_row JsNull world_with_row "\<lparr>error = JsString ''No user found''\<rparr>"] h2
    by simp
  have c: "fst (handleUpdateProfile (\<lambda>n w. (Throws (JsError ''Failed to fetch''), w))
          editing_dashboard world_with_row) = editing_dashboard"
    using handleUpdateProfile_applies_name_on_success_only
            [of "\<lambda>n w. (Throws (JsError ''Failed to fetch''), w)" editing_dashboard
                world_with_row "JsError ''Failed to fetch''" world_with_row] h3
    by simp
  have a': "map_option name (profile (fst (handleUpdateProfile
          (context_updateProfile (table_store length None) (Some example_user))
          editing_dashboard world_with_row))) = Some ''Ann B''"
    unfolding a by (simp add: editing_dashboard_def)
  show ?thesis
    using h1 h2 a' b c by simp
qed

lemma fetchUserData_profile_no_resumes_request:
  "ResumesSelect q \<notin> set (fst (snd (snd (fetchUserData_profile sb u st w))))"
  by (auto simp: fetchUserData_profile_def Let_def
           split: prod.splits outcome.splits option.splits if_splits)

lemma fetchUserData_resumes_request:
  assumes "ResumesSelect q \<in> set (sent (fetchUserData sb usr st w))"
  shows "q_order q = ''created_at'' \<and> \<not> q_ascending q"
proof (cases usr)
  case None
  with assms show ?thesis by (simp add: fetchUserData_def sent_def)
next
  case (Some u)
  with assms have "q = resumes_query u"
    using fetchUserData_profile_no_resumes_request [of q sb u st w]
    by (auto simp: fetchUserData_sent split: outcome.splits)
  then show ?thesis by (simp add: resumes_query_def)
qed

lemma sorted_desc_order_rows:
  "sorted_desc instant (order_rows instant (resumes_query u) rs)"
proof -
  have "sorted (map (\<lambda>r. instant (resume.created_at r)) (sort_key (\<lambda>r. instant (resume.created_at r)) rs))"
    by (rule sorted_sort_key)
  then show ?thesis
    by (simp add: sorted_desc_def order_rows_def resumes_query_def sorted_wrt_rev sorted_map)
qed

lemma fetchUserData_table_sorted:
  "sorted_desc instant (resumes (fst (fetchUserData (table_store instant miss) (Some u) st w)))"
proof (cases "profile_rows w (user.id' u)")
  case None
  show ?thesis
    by (simp add: fetchUserData_table fetchUserData_table_missing [OF None] sorted_desc_order_rows)
next
  case (Some r)
  show ?thesis
    by (simp add: fetchUserData_table fetchUserData_table_existing [OF Some] sorted_desc_order_rows)
qed

lemma handleUploadSuccess_sorted:
  assumes "sorted_desc instant (resumes st)"
    and "list_all (\<lambda>x. instant (resume.created_at x) < instant (resume.created_at newResume)) (resumes st)"
  shows "sorted_desc instant (resumes (handleUploadSuccess newResume st))"
  using assms
  by (auto simp: sorted_desc_def handleUploadSuccess_def list_all_iff intro: less_imp_le)

lemma uploads_sorted:
  "sorted_desc instant (resumes st) \<Longrightarrow> chronological instant (resumes st) rs \<Longrightarrow>
   sorted_desc instant (resumes (uploads rs st))"
proof (induction rs arbitrary: st)
  case Nil
  then show ?case by simp
next
  case (Cons r rs)
  have s: "sorted_desc instant (resumes (handleUploadSuccess r st))"
    using Cons.prems by (simp add: handleUploadSuccess_sorted)
  have c: "chronological instant (resumes (handleUploadSuccess r st)) rs"
    using Cons.prems by (simp add: handleUploadSuccess_def)
  show ?case
    using Cons.IH [OF s c] by simp
qed

text \<open>
  C3. The query that \<open>fetchUserData\<close> sends for the resumes asks for descending
  order of \<open>created_at\<close>, and the list it gets from the reference store is in that order.
  Prepending an uploaded resume that is strictly later than every resume of a descending
  list gives a descending list again, and so does every run of uploads that are each
  strictly later than all before them.
\<close>

theorem resumes_sorted_descending:
  "(\<forall>q. ResumesSelect q \<in> set (sent (fetchUserData sb usr st w)) \<longrightarrow>
        q_order q = ''created_at'' \<and> \<not> q_ascending q)
   \<and> sorted_desc instant (resumes (fst (fetchUserData (table_store instant miss) (Some u) st w')))
   \<and> (sorted_desc instant (resumes st)
        \<and> (\<forall>x \<in> set (resumes st). instant (resume.created_at x) < instant (resume.created_at newResume))
      \<longrightarrow> resumes (handleUploadSuccess newResume st) = newResume # resumes st
        \<and> sorted_desc instant (resumes (handleUploadSuccess newResume st)))
   \<and> (sorted_desc instant (resumes st) \<and> chronological instant (resumes st) rs
      \<longrightarrow> sorted_desc instant (resumes (uploads rs st)))"
proof (intro conjI allI impI)
  fix q assume "ResumesSelect q \<in> set (sent (fetchUserData sb usr st w))"
  then show "q_order q = ''created_at''" and "\<not> q_ascending q"
    using fetchUserData_resumes_request [of q sb usr st w] by simp_all
next
  show "sorted_desc instant (resumes (fst (fetchUserData (table_store instant miss) (Some u) st w')))"
    by (rule fetchUserData_table_sorted)
next
  assume a: "sorted_desc instant (resumes st)
        \<and> (\<forall>x \<in> set (resumes st). instant (resume.created_at x) < instant (resume.created_at newResume))"
  show "resumes (handleUploadSuccess newResume st) = newResume # resumes st"
    by (simp add: handleUploadSuccess_def)
  show "sorted_desc instant (resumes (handleUploadSuccess newResume st))"
    using a by (simp add: handleUploadSuccess_sorted list_all_iff)
next
  assume "sorted_desc instant (resumes st) \<and> chronological instant (resumes st) rs"
  then show "sorted_desc instant (resumes (uploads rs st))"
    by (simp add: uploads_sorted)
qed

theorem resumes_sorted_descending_witness:
  "resumes (fst (fetchUserData (table_store (\<lambda>s. s) None) (Some example_user) dashboard_initial
                      world_with_resumes)) = resumes fetched_dashboard
   \<and> sorted_desc (\<lambda>s. s) (resumes fetched_dashboard)
   \<and> list_all (\<lambda>x. resume.created_at x
                        < resume.created_at (example_resume 4 ''u1'' ''2024-05-01T10:00:00.000Z''))
        (resumes fetched_dashboard)
   \<and> resumes (handleUploadSuccess (example_resume 4 ''u1'' ''2024-05-01T10:00:00.000Z'') fetched_dashboard) =
       [example_resume 4 ''u1'' ''2024-05-01T10:00:00.000Z'',
        example_resume 3 ''u1'' ''2024-04-03T09:00:00.000Z'',
        example_resume 1 ''u1'' ''2024-04-01T09:00:00.000Z'']
   \<and> sorted_desc (\<lambda>s. s)
        (resumes (handleUploadSuccess (example_resume 4 ''u1'' ''2024-05-01T10:00:00.000Z'') fetched_dashboard))
   \<and> chronological (\<lambda>s. s) (resumes fetched_dashboard)
        [example_resume 4 ''u1'' ''2024-05-01T10:00:00.000Z'',
         example_resume 5 ''u1'' ''2024-05-02T10:00:00.000Z'']
   \<and> sorted_desc (\<lambda>s. s)
        (resumes (uploads [example_resume 4 ''u1'' ''2024-05-01T10:00:00.000Z'',
                           example_resume 5 ''u1'' ''2024-05-02T10:00:00.000Z''] fetched_dashboard))"
proof -
  have f: "resumes (fst (fetchUserData (table_store (\<lambda>s. s) None) (Some example_user) dashboard_initial
                      world_with_resumes)) = resumes fetched_dashboard"
    by (simp add: fetchUserData_table fetchUserData_table_existing world_with_resumes_def example_user_def
          order_rows_def resumes_query_def example_resume_def fetched_dashboard_def)
  have s: "sorted_desc (\<lambda>s. s) (resumes fetched_dashboard)"
    using resumes_sorted_descending
            [of "table_store (\<lambda>s. s) None" "Some example_user" dashboard_initial world_with_resumes
                "\<lambda>s. s" None example_user world_with_resumes
                "example_resume 4 ''u1'' ''2024-05-01T10:00:00.000Z''" "[]"]
    by (simp add: f)
  have l: "\<forall>x \<in> set (resumes fetched_dashboard).
         resume.created_at x < resume.created_at (example_resume 4 ''u1'' ''2024-05-01T10:00:00.000Z'')"
    by (simp add: fetched_dashboard_def example_resume_def)
  have l': "list_all (\<lambda>x. resume.created_at x
                        < resume.created_at (example_resume 4 ''u1'' ''2024-05-01T10:00:00.000Z''))
        (resumes fetched_dashboard)"
    using l by (simp add: list_all_iff)
  have c: "chronological (\<lambda>s. s) (resumes fetched_dashboard)
        [example_resume 4 ''u1'' ''2024-05-01T10:00:00.000Z'',
         example_resume 5 ''u1'' ''2024-05-02T10:00:00.000Z'']"
    by (simp add: fetched_dashboard_def example_resume_def)
  note t = resumes_sorted_descending
            [of "table_store (\<lambda>s. s) None" "Some example_user" fetched_dashboard world_with_resumes
                "\<lambda>s. s" None example_user world_with_resumes
                "example_resume 4 ''u1'' ''2024-05-01T10:00:00.000Z''"
                "[example_resume 4 ''u1'' ''2024-05-01T10:00:00.000Z'',
                  example_resume 5 ''u1'' ''2024-05-02T10:00:00.000Z'']"]
  from t s l have u:
    "resumes (handleUploadSuccess (example_resume 4 ''u1'' ''2024-05-01T10:00:00.000Z'') fetched_dashboard) =
       example_resume 4 ''u1'' ''2024-05-01T10:00:00.000Z'' # resumes fetched_dashboard"
    and u': "sorted_desc (\<lambda>s. s)
        (resumes (handleUploadSuccess (example_resume 4 ''u1'' ''2024-05-01T10:00:00.000Z'') fetched_dashboard))"
    by blast+
  from t s c have v: "sorted_desc (\<lambda>s. s)
        (resumes (uploads [example_resume 4 ''u1'' ''2024-05-01T10:00:00.000Z'',
                           example_resume 5 ''u1'' ''2024-05-02T10:00:00.000Z''] fetched_dashboard))"
    by blast
  have r: "resumes fetched_dashboard =
       [example_resume 3 ''u1'' ''2024-04-03T09:00:00.000Z'',
        example_resume 1 ''u1'' ''2024-04-01T09:00:00.000Z'']"
    by (simp add: fetched_dashboard_def)
  have u1: "resumes (handleUploadSuccess (example_resume 4 ''u1'' ''2024-05-01T10:00:00.000Z'') fetched_dashboard) =
       [example_resume 4 ''u1'' ''2024-05-01T10:00:00.000Z'',
        example_resume 3 ''u1'' ''2024-04-03T09:00:00.000Z'',
        example_resume 1 ''u1'' ''2024-04-01T09:00:00.000Z'']"
    by (simp only: u r)
  show ?thesis
    by (intro conjI f s l' u1 u' c v)
qed

end
